theory Spec2Isabelle
  imports Main
begin

section \<open>Shared data: render options, characters, number formatting\<close>

text \<open>
  The options object of \<^verbatim>\<open>render(options)\<close> (src/src/response.mjs, src/src/index.d.ts) and
  the \<^verbatim>\<open>RenderOptions\<close> struct of the native module are the same four optional fields; the
  bridge renames \<^verbatim>\<open>waitFor\<close> to \<^verbatim>\<open>wait_for\<close>. An absent (undefined) field is \<open>None\<close>.
  The timeout is a JavaScript number; the model covers the integer values.
\<close>

record RenderOptions =
  timeout :: "int option"
  wait_for :: "string option"
  selector :: "string option"
  script :: "string option"

definition dquote :: char where
  "dquote = CHR 0x22"

definition backslash :: char where
  "backslash = CHR 0x5C"

definition newline :: char where
  "newline = CHR 0x0A"

text \<open>Decimal rendering of a number inside a template literal (\<^verbatim>\<open>`${timeout}`\<close>).\<close>

fun nat_to_string :: "nat \<Rightarrow> string" where
  "nat_to_string n =
     (if n < 10 then [''0123456789'' ! n]
      else nat_to_string (n div 10) @ [''0123456789'' ! (n mod 10)])"

declare nat_to_string.simps [simp del]

definition number_to_string :: "int \<Rightarrow> string" where
  "number_to_string i =
     (if i < 0 then CHR ''-'' # nat_to_string (nat (- i)) else nat_to_string (nat i))"

text \<open>\<^verbatim>\<open>String.prototype.includes\<close>: the pattern occurs as a contiguous run of the text.\<close>

primrec includes_str :: "string \<Rightarrow> string \<Rightarrow> bool" where
  "includes_str [] pat = (pat = [])"
| "includes_str (c # cs) pat = (take (length pat) (c # cs) = pat \<or> includes_str cs pat)"

section \<open>The render dispatcher (src/src/response.mjs)\<close>

subsection \<open>render: direct native call or child process\<close>

text \<open>
  \<^verbatim>\<open>renderCount\<close> is a module-level variable, shared by every \<^verbatim>\<open>RenderableResponse\<close>.
  \<^verbatim>\<open>render\<close> increments it, then takes the direct native call when it is exactly 1 and the
  child process otherwise. Both steps run before the first \<^verbatim>\<open>await\<close>, so one call's
  increment and test are not interleaved with another call's. The model returns which
  path the call takes, with the url of the instance and the options handed on, and the
  new counter.
\<close>

datatype dispatch =
  DirectNative string RenderOptions
| ChildProcess string RenderOptions

fun render :: "nat \<Rightarrow> string \<Rightarrow> RenderOptions \<Rightarrow> dispatch \<times> nat" where
  "render renderCount url options =
     (let renderCount' = renderCount + 1 in
      if renderCount' = 1 then (DirectNative url options, renderCount')
      else (ChildProcess url options, renderCount'))"

text \<open>A sequence of calls, each on its own instance (url) with its own options.\<close>

fun render_calls :: "nat \<Rightarrow> (string \<times> RenderOptions) list \<Rightarrow> dispatch list \<times> nat" where
  "render_calls renderCount [] = ([], renderCount)"
| "render_calls renderCount ((url, options) # calls) =
     (case render renderCount url options of
        (d, renderCount') \<Rightarrow>
          (case render_calls renderCount' calls of
             (ds, n) \<Rightarrow> (d # ds, n)))"

subsection \<open>renderInChildProcess\<close>

text \<open>
  A message received from the worker is an object; the handler reads the truthiness of
  \<^verbatim>\<open>ready\<close>, \<^verbatim>\<open>success\<close> and \<^verbatim>\<open>error\<close> in this order. A missing \<^verbatim>\<open>html\<close> or
  \<^verbatim>\<open>error\<close> is \<open>None\<close>; an absent or empty error string is falsy.
\<close>

record ipc_message =
  m_ready :: bool
  m_success :: bool
  m_html :: "string option"
  m_error :: "string option"

text \<open>
  The events the promise executor subscribes to: a message, the child's \<^verbatim>\<open>error\<close> event
  (the error object, by its message), the child's \<^verbatim>\<open>exit\<close> event (the code, \<open>None\<close> for
  \<^verbatim>\<open>null\<close> when a signal ended it), and the expiry of \<^verbatim>\<open>killTimeout\<close>.
\<close>

datatype child_event =
  Message ipc_message
| ChildError string
| ChildExit "int option"
| KillTimeout

datatype settlement =
  Resolve "string option"
| Reject string

text \<open>
  The closure's variables, and what the executor did to the outside: \<open>timer_pending\<close> is
  the timer of \<^verbatim>\<open>setTimeout\<close> (armed at the start, gone once it fired or was cleared),
  \<open>timer_delay\<close> its delay, \<open>killed\<close> whether \<^verbatim>\<open>child.kill()\<close> was called, \<open>sent\<close> the
  requests passed to \<^verbatim>\<open>child.send\<close>, \<open>settled\<close> the calls of \<^verbatim>\<open>resolve\<close> and
  \<^verbatim>\<open>reject\<close> in order.
\<close>

record child_state =
  workerReady :: bool
  resolved :: bool
  timer_pending :: bool
  timer_delay :: int
  killed :: bool
  sent :: "(string \<times> RenderOptions) list"
  settled :: "settlement list"

text \<open>\<^verbatim>\<open>const timeout = options.timeout || 5000\<close>: undefined and 0 give 5000.\<close>

definition child_timeout :: "RenderOptions \<Rightarrow> int" where
  "child_timeout options =
     (case timeout options of None \<Rightarrow> 5000 | Some t \<Rightarrow> if t = 0 then 5000 else t)"

definition child_start :: "RenderOptions \<Rightarrow> child_state" where
  "child_start options =
     \<lparr>workerReady = False, resolved = False, timer_pending = True,
      timer_delay = child_timeout options + 2000, killed = False, sent = [], settled = []\<rparr>"

definition exit_code_to_string :: "int option \<Rightarrow> string" where
  "exit_code_to_string code = (case code of None \<Rightarrow> ''null'' | Some n \<Rightarrow> number_to_string n)"

fun child_handle :: "string \<Rightarrow> RenderOptions \<Rightarrow> child_state \<Rightarrow> child_event \<Rightarrow> child_state" where
  "child_handle url options s KillTimeout =
     (if timer_pending s then
        (if \<not> resolved s then
           s\<lparr>timer_pending := False, resolved := True, killed := True,
             settled := settled s @
               [Reject (''Render timeout after '' @ number_to_string (child_timeout options) @ ''ms'')]\<rparr>
         else s\<lparr>timer_pending := False\<rparr>)
      else s)"
| "child_handle url options s (Message m) =
     (if m_ready m then s\<lparr>workerReady := True, sent := sent s @ [(url, options)]\<rparr>
      else if m_success m then
        (if \<not> resolved s then
           s\<lparr>resolved := True, timer_pending := False, settled := settled s @ [Resolve (m_html m)]\<rparr>
         else s)
      else (case m_error m of
              None \<Rightarrow> s
            | Some e \<Rightarrow>
                if e \<noteq> [] then
                  (if \<not> resolved s then
                     s\<lparr>resolved := True, timer_pending := False,
                       settled := settled s @ [Reject e]\<rparr>
                   else s)
                else s))"
| "child_handle url options s (ChildError e) =
     (if \<not> resolved s then
        s\<lparr>resolved := True, timer_pending := False, settled := settled s @ [Reject e]\<rparr>
      else s)"
| "child_handle url options s (ChildExit code) =
     (if \<not> resolved s then
        s\<lparr>resolved := True, timer_pending := False,
          settled := settled s @
            [Reject (if code \<noteq> Some 0
                     then ''Worker process exited with code '' @ exit_code_to_string code
                     else ''Worker exited without sending result'')]\<rparr>
      else s)"

definition renderInChildProcess :: "string \<Rightarrow> RenderOptions \<Rightarrow> child_event list \<Rightarrow> child_state" where
  "renderInChildProcess url options events =
     foldl (child_handle url options) (child_start options) events"


text \<open>
  The timeout the render itself runs under: the option when given, else the default of
  5000 ms that src/src/index.d.ts documents for \<^verbatim>\<open>timeout\<close>.
\<close>

definition render_timeout :: "RenderOptions \<Rightarrow> int" where
  "render_timeout options = (case timeout options of None \<Rightarrow> 5000 | Some t \<Rightarrow> t)"

text \<open>
  What holds of the closure's variables after any events: the timer is pending exactly
  while \<^verbatim>\<open>resolved\<close> is false, and \<^verbatim>\<open>resolved\<close> is true exactly when \<^verbatim>\<open>resolve\<close> or
  \<^verbatim>\<open>reject\<close> has been called, which happened at most once.
\<close>

definition child_inv :: "child_state \<Rightarrow> bool" where
  "child_inv s =
     (timer_pending s = (\<not> resolved s) \<and> resolved s = (settled s \<noteq> []) \<and> length (settled s) \<le> 1)"

text \<open>
  A message the handler takes for a result: not a ready message, and with a truthy
  \<^verbatim>\<open>success\<close> or \<^verbatim>\<open>error\<close>. \<open>no_result\<close> holds of the events that are messages of any
  other kind.
\<close>

definition result_message :: "ipc_message \<Rightarrow> bool" where
  "result_message m =
     (\<not> m_ready m \<and> (m_success m \<or> (case m_error m of None \<Rightarrow> False | Some e \<Rightarrow> e \<noteq> [])))"

fun no_result :: "child_event \<Rightarrow> bool" where
  "no_result (Message m) = (\<not> result_message m)"
| "no_result _ = False"

text \<open>The three messages of the wire protocol, as the worker builds them.\<close>

definition ready_message :: ipc_message where
  "ready_message = \<lparr>m_ready = True, m_success = False, m_html = None, m_error = None\<rparr>"



text \<open>A request used in the examples: the second render of a page, with a 5000 ms timeout.\<close>

definition example_url :: string where
  "example_url = ''http://localhost:8888/''"

definition example_options :: RenderOptions where
  "example_options = \<lparr>timeout = Some 5000, wait_for = None, selector = None, script = None\<rparr>"

section \<open>The render worker (src/unnamed/part_001, the file forked as render-worker.js)\<close>












section \<open>The native render loop (excerpts of src/lib.rs in src/unnamed/part_006)\<close>

text \<open>
  The architecture document reproduces the body of \<^verbatim>\<open>run_webview_blocking\<close> phase by phase
  (load detection, wait for selector, custom script execution, html extraction) and the
  error type. The definitions below follow these excerpts. The WebView is a parameter:
  a state \<open>'w\<close> and a function that evaluates a script on it, giving \<^verbatim>\<open>Err\<close> with the
  error's text (\<open>Inl\<close>) or \<^verbatim>\<open>Ok\<close> with the result string (\<open>Inr\<close>), and the next state.
\<close>

subsection \<open>Strings: trim_matches and replace\<close>


text \<open>
  \<^verbatim>\<open>str::trim_matches(c)\<close> removes every leading and every trailing occurrence of the
  character.
\<close>

definition trim_start_matches :: "char \<Rightarrow> string \<Rightarrow> string" where
  "trim_start_matches c s = dropWhile (\<lambda>x. x = c) s"

definition trim_matches :: "char \<Rightarrow> string \<Rightarrow> string" where
  "trim_matches c s = rev (trim_start_matches c (rev (trim_start_matches c s)))"

text \<open>
  \<^verbatim>\<open>str::replace(pat, to)\<close> replaces the non-overlapping occurrences of the pattern, found
  from left to right. An empty pattern matches before every character and at the end.
\<close>

function str_replace :: "string \<Rightarrow> string \<Rightarrow> string \<Rightarrow> string" where
  "str_replace pat to [] = (if pat = [] then to else [])"
| "str_replace pat to (c # cs) =
     (if pat = [] then to @ c # str_replace pat to cs
      else if take (length pat) (c # cs) = pat
        then to @ str_replace pat to (drop (length pat) (c # cs))
      else c # str_replace pat to cs)"
  by pat_completeness auto
termination
  by (relation "measure (\<lambda>(pat, to, s). length s)") auto

declare str_replace.simps [simp del]

text \<open>The clean-up of the extraction result (phase 7).\<close>

definition cleaned :: "string \<Rightarrow> string" where
  "cleaned result =
     str_replace [backslash, dquote] [dquote]
       (str_replace [backslash, CHR ''n''] [newline] (trim_matches dquote result))"

subsection \<open>Errors, the shared cells and the WebView\<close>

datatype RenderError =
  WindowCreation string
| WebViewCreation string
| Timeout
| ScriptExecution string
| Unknown string





type_synonym script_result = "string + string"



subsection \<open>The scripts\<close>




subsection \<open>The phases of one MainEventsCleared event\<close>








subsection \<open>Reading the record of evaluations\<close>









subsection \<open>The outcome\<close>

datatype RenderOutcome = Success string | Failure RenderError


subsection \<open>Two example pages\<close>








section \<open>The render state machine with its timeout (spec section 4.2)\<close>

text \<open>
  Modelled from the spec: the timeout of the Render State Machine. The excerpts of
  \<^verbatim>\<open>run_webview_blocking\<close> in the sources show the phases of the event loop and no timeout
  check, so the machine below follows the words of spec section 4.2: one transition per
  event-loop tick, the states AwaitingLoad, AwaitingSelector, ExecutingScript and
  Extracting, and the elapsed time since the session started compared with the timeout
  in the two waiting states. A tick carries what the machine observes at it: the
  elapsed time in milliseconds, the readiness flag, whether the wait selector matches,
  the custom script's error if it fails, and the result of the extraction script.
\<close>

record tick_observation =
  elapsed_ms :: nat
  ready_flag :: bool
  selector_found :: bool
  script_error :: "string option"
  extraction_result :: script_result

datatype machine_state =
  AwaitingLoad
| AwaitingSelector
| ExecutingScript
| Extracting
| Terminal RenderOutcome

text \<open>
  Modelled from the spec: Initializing ends in WindowCreation or WebViewCreation when the
  construction fails and in AwaitingLoad otherwise.
\<close>

definition initialize :: "RenderError option \<Rightarrow> machine_state" where
  "initialize failure = (case failure of None \<Rightarrow> AwaitingLoad | Some e \<Rightarrow> Terminal (Failure e))"

text \<open>
  Modelled from the spec: where the waiting states go on to (the selector wait only with
  a wait selector, the script only with a custom script).
\<close>

definition after_selector :: "RenderOptions \<Rightarrow> machine_state" where
  "after_selector opts = (if script opts \<noteq> None then ExecutingScript else Extracting)"

definition after_load :: "RenderOptions \<Rightarrow> machine_state" where
  "after_load opts = (if wait_for opts \<noteq> None then AwaitingSelector else after_selector opts)"

text \<open>
  Modelled from the spec: one tick. AwaitingLoad: flag not yet true and elapsed time
  below the timeout, remain; elapsed time at or above the timeout, Failure(Timeout);
  flag true, go on. AwaitingSelector: absent and within the timeout, remain; absent at
  the timeout, Failure(Timeout); present, go on. ExecutingScript: an evaluation error is
  Failure(ScriptExecution), else Extracting. Extracting: an evaluation error is
  Failure(ScriptExecution), else Success with the unwrapped result.
\<close>

fun machine_tick :: "RenderOptions \<Rightarrow> machine_state \<Rightarrow> tick_observation \<Rightarrow> machine_state" where
  "machine_tick opts AwaitingLoad t =
     (if \<not> ready_flag t \<and> int (elapsed_ms t) < render_timeout opts then AwaitingLoad
      else if render_timeout opts \<le> int (elapsed_ms t) then Terminal (Failure Timeout)
      else after_load opts)"
| "machine_tick opts AwaitingSelector t =
     (if \<not> selector_found t \<and> int (elapsed_ms t) < render_timeout opts then AwaitingSelector
      else if \<not> selector_found t then Terminal (Failure Timeout)
      else after_selector opts)"
| "machine_tick opts ExecutingScript t =
     (case script_error t of
        Some e \<Rightarrow> Terminal (Failure (ScriptExecution e))
      | None \<Rightarrow> Extracting)"
| "machine_tick opts Extracting t =
     (case extraction_result t of
        Inl e \<Rightarrow> Terminal (Failure (ScriptExecution e))
      | Inr result \<Rightarrow> Terminal (Success (cleaned result)))"
| "machine_tick opts (Terminal outcome) t = Terminal outcome"

definition machine_run :: "RenderOptions \<Rightarrow> tick_observation list \<Rightarrow> machine_state" where
  "machine_run opts ticks = foldl (machine_tick opts) (initialize None) ticks"

text \<open>
  An example: a wait for \<^verbatim>\<open>.never\<close> under the default timeout of 5000 ms. The page is
  loaded at the tick at 4000 ms; the selector never matches.
\<close>

definition never_options :: RenderOptions where
  "never_options = \<lparr>timeout = None, wait_for = Some ''.never'', selector = None, script = None\<rparr>"

definition never_tick :: "nat \<Rightarrow> bool \<Rightarrow> tick_observation" where
  "never_tick ms ready =
     \<lparr>elapsed_ms = ms, ready_flag = ready, selector_found = False, script_error = None,
      extraction_result = Inr []\<rparr>"

section \<open>Properties of the dispatcher\<close>

lemma render_calls_later:
  "fst (render_calls (Suc n) calls) = map (\<lambda>(url, options). ChildProcess url options) calls"
  by (induction calls arbitrary: n) (auto simp: case_prod_beta)

lemma render_calls_count:
  "snd (render_calls n calls) = n + length calls"
  by (induction calls arbitrary: n) (auto simp: case_prod_beta)

text \<open>
  C2. Starting from a fresh module (\<^verbatim>\<open>renderCount = 0\<close>), the first call of any sequence
  of \<^verbatim>\<open>render\<close> calls takes the direct native call and every later call takes the child
  process, each with its own instance's url and options, whatever the instances are; the
  counter ends at the number of calls made.
\<close>

theorem render_first_direct_then_child:
  "render_calls 0 ((url, options) # calls) =
     (DirectNative url options # map (\<lambda>(u, opt). ChildProcess u opt) calls,
      Suc (length calls))"
proof -
  have "fst (render_calls (Suc 0) calls) = map (\<lambda>(u, opt). ChildProcess u opt) calls"
    by (rule render_calls_later)
  moreover have "snd (render_calls (Suc 0) calls) = Suc 0 + length calls"
    by (rule render_calls_count)
  ultimately show ?thesis
    by (cases "render_calls (Suc 0) calls") simp
qed

subsection \<open>One settlement per child-process render\<close>

lemma child_inv_start: "child_inv (child_start options)"
  by (simp add: child_inv_def child_start_def)

lemma child_inv_handle: "child_inv s \<Longrightarrow> child_inv (child_handle url options s e)"
  by (cases e) (auto simp: child_inv_def split: option.splits)

lemma child_inv_foldl:
  "child_inv s \<Longrightarrow> child_inv (foldl (child_handle url options) s events)"
  by (induction events arbitrary: s) (simp_all add: child_inv_handle)

lemma child_inv_run: "child_inv (renderInChildProcess url options events)"
  by (simp add: renderInChildProcess_def child_inv_foldl child_inv_start)

lemma child_handle_settled_grows:
  "\<exists>more. settled (child_handle url options s e) = settled s @ more"
  by (cases e) (auto split: option.splits)

lemma child_foldl_settled_grows:
  "\<exists>more. settled (foldl (child_handle url options) s events) = settled s @ more"
proof (induction events arbitrary: s)
  case Nil
  then show ?case by simp
next
  case (Cons e events)
  obtain m1 where m1: "settled (child_handle url options s e) = settled s @ m1"
    using child_handle_settled_grows by blast
  obtain m2 where
    "settled (foldl (child_handle url options) (child_handle url options s e) events)
       = settled (child_handle url options s e) @ m2"
    using Cons.IH by blast
  with m1 show ?case by simp
qed

lemma run_append:
  "renderInChildProcess url options (xs @ ys)
     = foldl (child_handle url options) (renderInChildProcess url options xs) ys"
  by (simp add: renderInChildProcess_def)


lemma child_unsettled_state:
  assumes "settled (renderInChildProcess url options events) = []"
  shows "\<not> resolved (renderInChildProcess url options events)"
    and "timer_pending (renderInChildProcess url options events)"
  using assms child_inv_run [of url options events] by (auto simp: child_inv_def)

lemma child_settled_final:
  assumes "settled (renderInChildProcess url options events) = [r]"
  shows "settled (renderInChildProcess url options (events @ later)) = [r]"
proof -
  obtain more where m:
    "settled (renderInChildProcess url options (events @ later)) = [r] @ more"
    using child_foldl_settled_grows [of url options "renderInChildProcess url options events" later]
      assms
    by (auto simp: run_append)
  have "length (settled (renderInChildProcess url options (events @ later))) \<le> 1"
    using child_inv_run [of url options "events @ later"] by (simp add: child_inv_def)
  with m show ?thesis by simp
qed


subsection \<open>The kill timer and the exit handler\<close>





lemma no_result_keeps_unsettled:
  "no_result e \<Longrightarrow> settled (child_handle url options s e) = settled s"
  by (cases e) (auto simp: result_message_def split: option.splits)

lemma no_results_unsettled:
  "list_all no_result events \<Longrightarrow> settled (foldl (child_handle url options) s events) = settled s"
  by (induction events arbitrary: s) (simp_all add: no_result_keeps_unsettled)

lemma no_results_run_unsettled:
  "list_all no_result events \<Longrightarrow> settled (renderInChildProcess url options events) = []"
  by (simp add: renderInChildProcess_def no_results_unsettled child_start_def)


lemma nts5000: "number_to_string 5000 = ''5000''"
  by (simp add: number_to_string_def nat_to_string.simps)


text \<open>
  C7. The error surfaced on the dispatcher-detected timeout path, evaluated on the
  example request: its message is \<^verbatim>\<open>Render timeout after 5000ms\<close>, in which neither
  \<^verbatim>\<open>Timeout\<close> nor the documented tag \<^verbatim>\<open>RenderTimeoutError\<close> occurs, while the native
  module's timeout message \<^verbatim>\<open>RenderTimeoutError: Rendering timed out\<close> carries the tag.
\<close>

theorem child_timeout_message_untagged:
  "settled (renderInChildProcess example_url example_options [Message ready_message, KillTimeout])
     = [Reject ''Render timeout after 5000ms'']
   \<and> includes_str ''Render timeout after 5000ms'' ''Timeout'' = False
   \<and> includes_str ''Render timeout after 5000ms'' ''RenderTimeoutError'' = False
   \<and> includes_str ''RenderTimeoutError: Rendering timed out'' ''Timeout'' = True"
  by (simp add: renderInChildProcess_def child_start_def ready_message_def example_options_def child_timeout_def nts5000)

text \<open>
  C8 (as amended). When every event before the worker's exit is a message that is not a
  result (ready messages, messages with neither a truthy \<^verbatim>\<open>success\<close> nor a truthy
  \<^verbatim>\<open>error\<close>), the exit rejects the promise with \<^verbatim>\<open>Worker process exited with code N\<close> when
  the code is not 0 (N the code, \<^verbatim>\<open>null\<close> when a signal ended the worker) and with
  \<^verbatim>\<open>Worker exited without sending result\<close> when the code is 0; later events change nothing.
\<close>

theorem child_exit_without_result:
  assumes "list_all no_result events"
  shows "settled (renderInChildProcess url options (events @ ChildExit code # later))
     = [Reject (if code \<noteq> Some 0
                then ''Worker process exited with code '' @ exit_code_to_string code
                else ''Worker exited without sending result'')]"
proof -
  let ?s = "renderInChildProcess url options events"
  have e: "settled ?s = []"
    using assms by (rule no_results_run_unsettled)
  have u: "\<not> resolved ?s"
    using child_unsettled_state [OF e] by simp
  have "settled (renderInChildProcess url options (events @ [ChildExit code]))
     = [Reject (if code \<noteq> Some 0
                then ''Worker process exited with code '' @ exit_code_to_string code
                else ''Worker exited without sending result'')]"
    using u e by (simp add: run_append)
  then have "settled (renderInChildProcess url options ((events @ [ChildExit code]) @ later))
     = [Reject (if code \<noteq> Some 0
                then ''Worker process exited with code '' @ exit_code_to_string code
                else ''Worker exited without sending result'')]"
    by (rule child_settled_final)
  then show ?thesis by simp
qed

lemma nts1: "number_to_string 1 = ''1''"
  by (simp add: number_to_string_def nat_to_string.simps)

text \<open>The three cases on the example request: exit code 1, exit code 0, ended by a signal.\<close>

theorem child_exit_without_result_witness:
  "list_all no_result [Message ready_message]
   \<and> settled (renderInChildProcess example_url example_options [Message ready_message, ChildExit (Some 1)])
       = [Reject ''Worker process exited with code 1'']
   \<and> settled (renderInChildProcess example_url example_options [Message ready_message, ChildExit (Some 0)])
       = [Reject ''Worker exited without sending result'']
   \<and> settled (renderInChildProcess example_url example_options [Message ready_message, ChildExit None])
       = [Reject ''Worker process exited with code null'']"
proof -
  have a: "list_all no_result [Message ready_message]"
    by (simp add: result_message_def ready_message_def)
  show ?thesis
    using a child_exit_without_result [OF a, of example_url example_options "Some 1" "[]"]
      child_exit_without_result [OF a, of example_url example_options "Some 0" "[]"]
      child_exit_without_result [OF a, of example_url example_options "None" "[]"]
    by (simp add: exit_code_to_string_def nts1)
qed

text \<open>
  C8 as stated fails: the messages the code produces are not the strings
  \<^verbatim>\<open>worker exited with code 1\<close> and \<^verbatim>\<open>worker exited without sending result\<close>.
\<close>

theorem child_exit_message_counterexample:
  "settled (renderInChildProcess example_url example_options [Message ready_message, ChildExit (Some 1)])
     \<noteq> [Reject ''worker exited with code 1'']
   \<and> settled (renderInChildProcess example_url example_options [Message ready_message, ChildExit (Some 0)])
     \<noteq> [Reject ''worker exited without sending result'']"
  by (simp add: renderInChildProcess_def child_start_def ready_message_def exit_code_to_string_def nts1)

section \<open>Properties of the worker\<close>







section \<open>Properties of the native render loop\<close>

subsection \<open>trim_matches and replace\<close>








subsection \<open>The loop polls until it has finished\<close>














subsection \<open>What a run has evaluated and stored\<close>























section \<open>Properties of the state machine with its timeout\<close>

lemma waiting_stays:
  assumes "wait_for opts \<noteq> None"
    and "\<forall>t\<in>set ticks. \<not> selector_found t \<and> int (elapsed_ms t) < render_timeout opts"
    and "s = AwaitingLoad \<or> s = AwaitingSelector"
  shows "foldl (machine_tick opts) s ticks = AwaitingLoad
    \<or> foldl (machine_tick opts) s ticks = AwaitingSelector"
  using assms
proof (induction ticks arbitrary: s)
  case Nil
  then show ?case by simp
next
  case (Cons t ticks)
  have "machine_tick opts s t = AwaitingLoad \<or> machine_tick opts s t = AwaitingSelector"
    using Cons.prems by (auto simp: after_load_def)
  then show ?case
    using Cons.IH [of "machine_tick opts s t"] Cons.prems by simp
qed

lemma waiting_times_out:
  assumes "\<not> selector_found t" "render_timeout opts \<le> int (elapsed_ms t)"
    and "s = AwaitingLoad \<or> s = AwaitingSelector"
  shows "machine_tick opts s t = Terminal (Failure Timeout)"
  using assms by auto

lemma terminal_stays: "foldl (machine_tick opts) (Terminal outcome) ticks = Terminal outcome"
  by (induction ticks) simp_all

text \<open>
  C3. In the state machine of spec section 4.2, with a wait selector that no tick finds:
  as long as the ticks stay below the timeout the machine is in AwaitingLoad or
  AwaitingSelector, and at the first tick whose elapsed time, measured from the session
  start, has reached the timeout it ends in Failure(Timeout), in whichever of the two
  states it is then and however long the load took; later ticks change nothing.
\<close>

theorem selector_wait_times_out:
  assumes "wait_for opts = Some sel"
    and "\<forall>t\<in>set earlier. \<not> selector_found t \<and> int (elapsed_ms t) < render_timeout opts"
    and "\<not> selector_found t" and "render_timeout opts \<le> int (elapsed_ms t)"
  shows "(machine_run opts earlier = AwaitingLoad \<or> machine_run opts earlier = AwaitingSelector)
    \<and> machine_run opts (earlier @ [t]) = Terminal (Failure Timeout)
    \<and> machine_run opts (earlier @ t # later) = Terminal (Failure Timeout)"
proof -
  have w: "wait_for opts \<noteq> None" using assms(1) by simp
  have a: "machine_run opts earlier = AwaitingLoad \<or> machine_run opts earlier = AwaitingSelector"
    unfolding machine_run_def
    by (rule waiting_stays [OF w assms(2)]) (simp add: initialize_def)
  have b: "machine_run opts (earlier @ [t]) = Terminal (Failure Timeout)"
    using waiting_times_out [OF assms(3,4) a] by (simp add: machine_run_def)
  have "machine_run opts (earlier @ t # later)
      = foldl (machine_tick opts) (machine_run opts (earlier @ [t])) later"
    by (simp add: machine_run_def)
  then have c: "machine_run opts (earlier @ t # later) = Terminal (Failure Timeout)"
    by (simp add: b terminal_stays)
  from a b c show ?thesis by blast
qed

text \<open>
  The example: the load takes 4000 ms of the 5000 ms, the machine waits for the selector
  from then on and times out at the tick at 5000 ms, 1000 ms into the selector wait.
\<close>

theorem selector_wait_times_out_witness:
  "wait_for never_options = Some ''.never''
   \<and> render_timeout never_options = 5000
   \<and> machine_run never_options [never_tick 1000 False, never_tick 4000 True, never_tick 4900 True]
       = AwaitingSelector
   \<and> machine_run never_options
        [never_tick 1000 False, never_tick 4000 True, never_tick 4900 True, never_tick 5000 True,
         never_tick 5100 True]
       = Terminal (Failure Timeout)"
proof -
  have a: "wait_for never_options = Some ''.never''"
    by (simp add: never_options_def)
  have r: "render_timeout never_options = 5000"
    by (simp add: render_timeout_def never_options_def)
  have b: "\<forall>t\<in>set [never_tick 1000 False, never_tick 4000 True, never_tick 4900 True].
        \<not> selector_found t \<and> int (elapsed_ms t) < render_timeout never_options"
    by (simp add: never_tick_def r)
  have c: "\<not> selector_found (never_tick 5000 True)"
    by (simp add: never_tick_def)
  have d: "render_timeout never_options \<le> int (elapsed_ms (never_tick 5000 True))"
    by (simp add: never_tick_def r)
  have e: "machine_run never_options
        [never_tick 1000 False, never_tick 4000 True, never_tick 4900 True] = AwaitingSelector"
    by (simp add: machine_run_def initialize_def never_tick_def render_timeout_def after_load_def
        never_options_def)
  show ?thesis
    using a r e selector_wait_times_out [OF a b c d, of "[never_tick 5100 True]"] by simp
qed

end
